theory Spec2Isabelle
  imports Complex_Main "HOL-Library.AList" "HOL-Library.Char_ord" "HOL-Library.List_Lexorder"
begin

section \<open>Numeric values\<close>

text \<open>
  The notebook computes with NumPy doubles. Finite doubles are modelled as mathematical
  reals: the rounding of a result to the nearest double is not modelled. The three special
  values a NumPy operation can produce instead of raising are kept as constructors of their
  own: \<^verbatim>\<open>np.log(0.0)\<close> is \<^verbatim>\<open>-inf\<close>, \<^verbatim>\<open>np.log\<close> of a negative number is
  \<^verbatim>\<open>nan\<close> (a RuntimeWarning, no exception), and \<^verbatim>\<open>np.exp\<close> leaves the range of the
  doubles at both ends (\<open>np_exp\<close> below).
\<close>

datatype npfloat = Fin real | PInf | NInf | NaN

fun is_finite :: "npfloat \<Rightarrow> bool" where
  "is_finite (Fin v) = True"
| "is_finite PInf = False"
| "is_finite NInf = False"
| "is_finite NaN = False"

text \<open>IEEE addition and negation on the extended values.\<close>

fun np_add :: "npfloat \<Rightarrow> npfloat \<Rightarrow> npfloat" where
  "np_add NaN b = NaN"
| "np_add a NaN = NaN"
| "np_add (Fin a) (Fin b) = Fin (a + b)"
| "np_add PInf NInf = NaN"
| "np_add NInf PInf = NaN"
| "np_add PInf b = PInf"
| "np_add a PInf = PInf"
| "np_add NInf b = NInf"
| "np_add a NInf = NInf"

fun np_neg :: "npfloat \<Rightarrow> npfloat" where
  "np_neg (Fin a) = Fin (- a)"
| "np_neg PInf = NInf"
| "np_neg NInf = PInf"
| "np_neg NaN = NaN"

definition np_log :: "real \<Rightarrow> npfloat" where
  "np_log v = (if 0 < v then Fin (ln v) else if v = 0 then NInf else NaN)"

text \<open>
  Modelled from the spec: \<^verbatim>\<open>scipy.stats.poisson.pmf\<close> is library code outside the
  repository. On its support (the non-negative integers) it is the formula of section 4.3,
  \<open>exp (- rate) * rate ^ k / k!\<close>; off the support (a negative or non-integer \<open>k\<close>) the
  library returns \<open>0.0\<close>.
\<close>

definition poisson_pmf :: "real \<Rightarrow> real \<Rightarrow> real" where
  "poisson_pmf k rate =
     (if 0 \<le> k \<and> k = of_int \<lfloor>k\<rfloor>
      then exp (- rate) * rate ^ nat \<lfloor>k\<rfloor> / fact (nat \<lfloor>k\<rfloor>)
      else 0)"

section \<open>The score correction and the per-match log-likelihood\<close>

text \<open>
  \<^verbatim>\<open>
  def rho_correction(x, y, lambda_x, mu_y, rho):
      if x==0 and y==0:
          return 1 - (lambda_x * mu_y * rho)
      elif x==0 and y==1:
          return 1 + (lambda_x * rho)
      elif x==1 and y==0:
          return 1 + (mu_y * rho)
      elif x==1 and y==1:
          return 1 - rho
      else:
          return 1.0
  \<close>
  The scores of the notebook's data frame are doubles (\<open>20.0\<close>), so \<open>x\<close> and \<open>y\<close> are
  reals here; an integer score is \<open>of_nat n\<close> or \<open>of_int i\<close>.
\<close>

definition rho_correction :: "real \<Rightarrow> real \<Rightarrow> real \<Rightarrow> real \<Rightarrow> real \<Rightarrow> real" where
  "rho_correction x y lambda_x mu_y rho =
     (if x = 0 \<and> y = 0 then 1 - (lambda_x * mu_y * rho)
      else if x = 0 \<and> y = 1 then 1 + (lambda_x * rho)
      else if x = 1 \<and> y = 0 then 1 + (mu_y * rho)
      else if x = 1 \<and> y = 1 then 1 - rho
      else 1)"

text \<open>
  \<^verbatim>\<open>
  def dc_log_like(x, y, alpha_x, beta_x, alpha_y, beta_y, rho, gamma):
      lambda_x, mu_y = np.exp(alpha_x + beta_y + gamma), np.exp(alpha_y + beta_x)
      return (np.log(rho_correction(x, y, lambda_x, mu_y, rho)) +
              np.log(poisson.pmf(x, lambda_x)) + np.log(poisson.pmf(y, mu_y)))
  \<close>
  The first line is \<open>expected_rates\<close>, the second \<open>dc_log_like\<close>. Both take
  \<^verbatim>\<open>np.exp\<close> in exact arithmetic, which is what the doubles give, up to rounding, as long
  as the result stays in their range; \<open>expected_rates_float64\<close> below is the first line
  with the underflow and the overflow of \<^verbatim>\<open>np.exp\<close>.
\<close>

definition expected_rates :: "real \<Rightarrow> real \<Rightarrow> real \<Rightarrow> real \<Rightarrow> real \<Rightarrow> real \<times> real" where
  "expected_rates alpha_x beta_x alpha_y beta_y gamma =
     (exp (alpha_x + beta_y + gamma), exp (alpha_y + beta_x))"

definition dc_log_like ::
  "real \<Rightarrow> real \<Rightarrow> real \<Rightarrow> real \<Rightarrow> real \<Rightarrow> real \<Rightarrow> real \<Rightarrow> real \<Rightarrow> npfloat" where
  "dc_log_like x y alpha_x beta_x alpha_y beta_y rho gamma =
     (case expected_rates alpha_x beta_x alpha_y beta_y gamma of
        (lambda_x, mu_y) \<Rightarrow>
          np_add (np_add (np_log (rho_correction x y lambda_x mu_y rho))
                         (np_log (poisson_pmf x lambda_x)))
                 (np_log (poisson_pmf y mu_y)))"

section \<open>The rates in double precision\<close>

text \<open>
  \<^verbatim>\<open>np.exp(v)\<close> is the double nearest to \<open>exp v\<close>. The smallest positive double is
  \<open>2 ^ -1074\<close>, so a value of at most half of it, \<open>2 ^ -1075\<close>, is rounded to \<open>0.0\<close>
  (\<^verbatim>\<open>np.exp(-800.0) == 0.0\<close>); the largest double is \<open>2 ^ 1024 - 2 ^ 971\<close>, so a value of
  at least \<open>2 ^ 1024 - 2 ^ 970\<close> is rounded to \<^verbatim>\<open>inf\<close> (\<^verbatim>\<open>np.exp(710.0)\<close>, with a
  RuntimeWarning and no exception). In between the result is a positive double, modelled by
  \<open>exp v\<close> itself.
\<close>

definition underflow_bound :: real where
  "underflow_bound = 1 / 2 ^ 1075"

definition overflow_bound :: real where
  "overflow_bound = 2 ^ 1024 - 2 ^ 970"

definition np_exp :: "real \<Rightarrow> npfloat" where
  "np_exp v =
     (if exp v \<le> underflow_bound then Fin 0
      else if overflow_bound \<le> exp v then PInf
      else Fin (exp v))"

text \<open>
  \<^verbatim>\<open>lambda_x, mu_y = np.exp(alpha_x + beta_y + gamma), np.exp(alpha_y + beta_x)\<close>
  as the doubles compute it.
\<close>

definition expected_rates_float64 ::
  "real \<Rightarrow> real \<Rightarrow> real \<Rightarrow> real \<Rightarrow> real \<Rightarrow> npfloat \<times> npfloat" where
  "expected_rates_float64 alpha_x beta_x alpha_y beta_y gamma =
     (np_exp (alpha_x + beta_y + gamma), np_exp (alpha_y + beta_x))"



section \<open>Errors\<close>

text \<open>
  Every way the code can stop with an exception is a value. \<open>ValueError Somethings_not_right\<close>
  is the solver's own \<^verbatim>\<open>raise ValueError("Something's not right")\<close>; the others are
  raised by Python itself: unpacking a sequence of the wrong length, subscripting a tuple with
  a string, a missing dictionary key, a tuple index out of range.
\<close>

datatype message = Somethings_not_right | Not_enough_values_to_unpack

datatype error = ValueError message | TypeError | KeyError | IndexError

definition and_then :: "error + 'a \<Rightarrow> ('a \<Rightarrow> error + 'b) \<Rightarrow> error + 'b" where
  "and_then m f = (case m of Inl e \<Rightarrow> Inl e | Inr v \<Rightarrow> f v)"

text \<open>A list comprehension whose element expression can raise: the first exception ends it.\<close>

fun traverse :: "('a \<Rightarrow> error + 'b) \<Rightarrow> 'a list \<Rightarrow> error + 'b list" where
  "traverse f [] = Inr []"
| "traverse f (r # rs) =
     and_then (f r) (\<lambda>v. and_then (traverse f rs) (\<lambda>vs. Inr (v # vs)))"

section \<open>The data frame and its rows\<close>

text \<open>
  The data frame of the notebook has the four columns \<^verbatim>\<open>Home Team\<close>, \<^verbatim>\<open>Home Score\<close>,
  \<^verbatim>\<open>Away Team\<close>, \<^verbatim>\<open>Away Score\<close>; a row is a record and the frame a list of rows.
  The score columns hold doubles, so a negative or fractional score is a well-formed row.
\<close>

record match =
  home_team :: string
  home_score :: real
  away_team :: string
  away_score :: real

type_synonym dataframe = "match list"

datatype cell = Str string | Num real

datatype subscript = Key string | Pos int

text \<open>
  \<^verbatim>\<open>dataset.itertuples()\<close> yields one named tuple per row, the index first and then the
  column values in column order: \<^verbatim>\<open>Pandas(Index=0, _1='Bec 1', _2=16.0, _3='KV 1', _4=22.0)\<close>.
\<close>

definition itertuples :: "dataframe \<Rightarrow> cell list list" where
  "itertuples dataset =
     map (\<lambda>(i, r). [Num (of_nat i), Str (home_team r), Num (home_score r),
                     Str (away_team r), Num (away_score r)])
         (enumerate 0 dataset)"

text \<open>
  Subscripting a tuple, \<^verbatim>\<open>row[k]\<close>: an integer selects a position (negative ones count
  from the end); a string is refused with
  \<^verbatim>\<open>TypeError: tuple indices must be integers or slices, not str\<close>.
\<close>

fun tuple_getitem :: "cell list \<Rightarrow> subscript \<Rightarrow> error + cell" where
  "tuple_getitem t (Key s) = Inl TypeError"
| "tuple_getitem t (Pos i) =
     (let n = int (length t); j = (if i < 0 then n + i else i)
      in if 0 \<le> j \<and> j < n then Inr (t ! nat j) else Inl IndexError)"

section \<open>Dictionaries\<close>

text \<open>
  \<^verbatim>\<open>dict(zip(keys, values))\<close>: \<open>zip\<close> stops at the shorter list, a later pair with a
  key already present overwrites its value, and the keys stay in insertion order.
\<close>

definition dict_zip :: "'k list \<Rightarrow> 'v list \<Rightarrow> ('k \<times> 'v) list" where
  "dict_zip ks vs = foldl (\<lambda>d (k, v). AList.update k v d) [] (zip ks vs)"

text \<open>\<^verbatim>\<open>d[c]\<close> on a dictionary keyed by team names: a missing key raises KeyError.\<close>

fun dict_getitem :: "(string \<times> 'v) list \<Rightarrow> cell \<Rightarrow> error + 'v" where
  "dict_getitem d (Str k) = (case map_of d k of None \<Rightarrow> Inl KeyError | Some v \<Rightarrow> Inr v)"
| "dict_getitem d (Num v) = Inl KeyError"

text \<open>A score handed to \<^verbatim>\<open>poisson.pmf\<close> has to be a number.\<close>

fun score_value :: "cell \<Rightarrow> error + real" where
  "score_value (Num v) = Inr v"
| "score_value (Str s) = Inl TypeError"

section \<open>The objective\<close>

text \<open>Python's \<^verbatim>\<open>sum\<close>: a left fold that starts from 0.\<close>

definition py_sum :: "npfloat list \<Rightarrow> npfloat" where
  "py_sum vs = foldl np_add (Fin 0) vs"

text \<open>\<^verbatim>\<open>rho, gamma = params[-2:]\<close>: the slice holds the last two entries, or fewer.\<close>

fun unpack2 :: "'a list \<Rightarrow> error + ('a \<times> 'a)" where
  "unpack2 [a, b] = Inr (a, b)"
| "unpack2 vs = Inl (ValueError Not_enough_values_to_unpack)"

text \<open>
  \<^verbatim>\<open>
  def estimate_parameters(params):
      score_coefs = dict(zip(teams, params[:n_teams]))
      defend_coefs = dict(zip(teams, params[n_teams: (2*n_teams)]))
      rho, gamma = params[-2:]
      log_like = [dc_log_like(row['Home Score'], row['Away Score'],
                              score_coefs[row['Home Team']], defend_coefs[row['Home Team']],
                              score_coefs[row['Away Team']], defend_coefs[row['Away Team']], rho, gamma)
                  for row in dataset.itertuples()]
      return -sum(log_like)
  \<close>
  \<open>log_like_term\<close> is the element expression of the comprehension, its arguments evaluated
  from left to right. It takes the subscript operation of the rows as \<open>getitem\<close>;
  \<open>estimate_parameters\<close> runs it on the rows of \<open>itertuples\<close> with the subscript of
  tuples. The variables \<open>teams\<close>, \<open>n_teams\<close> and \<open>dataset\<close> that the closure captures
  from \<open>solve_parameters\<close> are arguments.
\<close>

definition log_like_term ::
  "('r \<Rightarrow> subscript \<Rightarrow> error + cell) \<Rightarrow> (string \<times> real) list \<Rightarrow> (string \<times> real) list
     \<Rightarrow> real \<Rightarrow> real \<Rightarrow> 'r \<Rightarrow> error + npfloat" where
  "log_like_term getitem score_coefs defend_coefs rho gamma row =
     and_then (getitem row (Key ''Home Score'')) (\<lambda>x.
     and_then (getitem row (Key ''Away Score'')) (\<lambda>y.
     and_then (and_then (getitem row (Key ''Home Team'')) (dict_getitem score_coefs)) (\<lambda>alpha_x.
     and_then (and_then (getitem row (Key ''Home Team'')) (dict_getitem defend_coefs)) (\<lambda>beta_x.
     and_then (and_then (getitem row (Key ''Away Team'')) (dict_getitem score_coefs)) (\<lambda>alpha_y.
     and_then (and_then (getitem row (Key ''Away Team'')) (dict_getitem defend_coefs)) (\<lambda>beta_y.
     and_then (score_value x) (\<lambda>xv.
     and_then (score_value y) (\<lambda>yv.
       Inr (dc_log_like xv yv alpha_x beta_x alpha_y beta_y rho gamma)))))))))"

definition objective_over ::
  "('r \<Rightarrow> subscript \<Rightarrow> error + cell) \<Rightarrow> 'r list \<Rightarrow> string list \<Rightarrow> nat \<Rightarrow> real list
     \<Rightarrow> error + npfloat" where
  "objective_over getitem rows teams n_teams params =
     (let score_coefs = dict_zip teams (take n_teams params);
          defend_coefs = dict_zip teams (take n_teams (drop n_teams params))
      in and_then (unpack2 (drop (length params - 2) params)) (\<lambda>(rho, gamma).
         and_then (traverse (log_like_term getitem score_coefs defend_coefs rho gamma) rows)
           (\<lambda>log_like. Inr (np_neg (py_sum log_like)))))"

definition estimate_parameters ::
  "string list \<Rightarrow> nat \<Rightarrow> dataframe \<Rightarrow> real list \<Rightarrow> error + npfloat" where
  "estimate_parameters teams n_teams dataset params =
     objective_over tuple_getitem (itertuples dataset) teams n_teams params"

section \<open>The solver\<close>

text \<open>
  \<^verbatim>\<open>scipy.optimize.minimize\<close> is library code: the solver takes it as the argument
  \<open>minimize\<close>, a function of the objective, the initial vector, the options and the
  constraints that returns an \<^verbatim>\<open>OptimizeResult\<close> or passes on an exception. The fields of
  the result are the final vector \<^verbatim>\<open>x\<close>, \<^verbatim>\<open>success\<close>, the iteration count \<^verbatim>\<open>nit\<close> and
  the final objective value \<^verbatim>\<open>fun\<close>. The draws of \<^verbatim>\<open>np.random.uniform(low, high, n)\<close> are
  the argument \<open>uniform\<close>. Extra keyword arguments are passed through to \<^verbatim>\<open>minimize\<close>
  untouched and are part of \<open>minimize\<close> here.
\<close>

record opt_result =
  res_x :: "real list"
  res_success :: bool
  res_nit :: nat
  res_fun :: npfloat

record options =
  disp :: bool
  maxiter :: nat

datatype constraint = Eq "real list \<Rightarrow> real" | Ineq "real list \<Rightarrow> real"

type_synonym minimizer =
  "(real list \<Rightarrow> error + npfloat) \<Rightarrow> real list \<Rightarrow> options \<Rightarrow> constraint list
     \<Rightarrow> error + opt_result"

text \<open>The default arguments of \<^verbatim>\<open>solve_parameters\<close>.\<close>

definition default_options :: options where
  "default_options = \<lparr>disp = True, maxiter = 100\<rparr>"

definition default_constraint_fun :: "real list \<Rightarrow> real" where
  "default_constraint_fun x = sum_list (take 20 x) - 20"

definition default_constraints :: "constraint list" where
  "default_constraints = [Eq default_constraint_fun]"

datatype solve_output = Raw opt_result | Params "(string \<times> real) list"

definition param_names :: "string list \<Rightarrow> string list" where
  "param_names teams =
     map (\<lambda>team. ''attack_'' @ team) teams @ map (\<lambda>team. ''defence_'' @ team) teams
       @ [''rho'', ''home_adv'']"

text \<open>
  \<^verbatim>\<open>
  def solve_parameters(dataset, debug=False, init_vals=None, options={'disp': True, 'maxiter': 100},
                       constraints = [{'type': 'eq', 'fun': lambda x: sum(x[:20])-20}], **kwargs):
      teams = np.sort(dataset['Home Team'].unique())
      away_teams = np.sort(dataset['Away Team'].unique())
      if not np.array_equal(teams, away_teams):
          raise ValueError("Something's not right")
      n_teams = len(teams)
      if init_vals is None:
          init_vals = np.concatenate((np.random.uniform(0,1, (n_teams)),
                                      np.random.uniform(0, -1, (n_teams)),
                                      np.array([0, 1.0])))
      ...
      opt_output = minimize(estimate_parameters, init_vals, options=options,
                            constraints=constraints, **kwargs)
      if debug:
          return opt_output
      else:
          return dict(zip(["attack_"+team for team in teams] +
                          ["defence_"+team for team in teams] +
                          ['rho', 'home_adv'],
                         opt_output.x))
  \<close>
  \<^verbatim>\<open>unique\<close> keeps the first occurrence of each name (\<open>remdups\<close> keeps the last, which
  the sort makes irrelevant); \<^verbatim>\<open>np.sort\<close> orders strings by code point.
\<close>

definition initial_values :: "(real \<Rightarrow> real \<Rightarrow> nat \<Rightarrow> real list) \<Rightarrow> nat \<Rightarrow> real list option \<Rightarrow> real list" where
  "initial_values uniform n_teams init_vals =
     (case init_vals of
        None \<Rightarrow> uniform 0 1 n_teams @ uniform 0 (- 1) n_teams @ [0, 1]
      | Some v \<Rightarrow> v)"

definition solve_parameters ::
  "dataframe \<Rightarrow> bool \<Rightarrow> real list option \<Rightarrow> options \<Rightarrow> constraint list
     \<Rightarrow> (real \<Rightarrow> real \<Rightarrow> nat \<Rightarrow> real list) \<Rightarrow> minimizer \<Rightarrow> error + solve_output" where
  "solve_parameters dataset debug init_vals opts constraints uniform minimize =
     (let teams = sort (remdups (map home_team dataset));
          away_teams = sort (remdups (map away_team dataset))
      in if teams \<noteq> away_teams then Inl (ValueError Somethings_not_right)
         else
           let n_teams = length teams;
               init = initial_values uniform n_teams init_vals
           in and_then (minimize (estimate_parameters teams n_teams dataset) init opts constraints)
                (\<lambda>opt_output.
                   if debug then Inr (Raw opt_output)
                   else Inr (Params (dict_zip (param_names teams) (res_x opt_output)))))"

section \<open>Definitions that follow the spec\<close>

text \<open>
  Modelled from the spec: the time-decay weight of section 4.6. The notebook announces time
  weighting in its title and introduction, but no cell computes a weight, and
  \<open>estimate_parameters\<close> sums the per-match values unweighted. The definition follows the
  contract \<open>weight = exp (- xi * elapsed_days)\<close>, with \<open>elapsed_days\<close> the number of days
  from the match date to the reference date.
\<close>

definition time_weight :: "real \<Rightarrow> real \<Rightarrow> real" where
  "time_weight xi elapsed_days = exp (- xi * elapsed_days)"

text \<open>
  The objective as sections 4.2 to 4.4 word it, for comparison with the code: the parameter
  vector holds one attack value per team, then one defence value per team, then \<open>rho\<close> and
  \<open>gamma\<close>; \<open>position teams t\<close> is the index of team \<open>t\<close> in the roster.
\<close>

fun position :: "'a list \<Rightarrow> 'a \<Rightarrow> nat" where
  "position [] t = 0"
| "position (s # ss) t = (if s = t then 0 else Suc (position ss t))"

definition spec_match_log_like ::
  "(string \<Rightarrow> real) \<Rightarrow> (string \<Rightarrow> real) \<Rightarrow> real \<Rightarrow> real \<Rightarrow> match \<Rightarrow> npfloat" where
  "spec_match_log_like alpha beta rho gamma m =
     (let lambda = exp (alpha (home_team m) + beta (away_team m) + gamma);
          mu = exp (alpha (away_team m) + beta (home_team m))
      in np_add (np_add (np_log (rho_correction (home_score m) (away_score m) lambda mu rho))
                        (np_log (poisson_pmf (home_score m) lambda)))
                (np_log (poisson_pmf (away_score m) mu)))"

definition spec_objective :: "string list \<Rightarrow> real list \<Rightarrow> dataframe \<Rightarrow> npfloat" where
  "spec_objective teams params dataset =
     (let n = length teams;
          alpha = (\<lambda>t. params ! position teams t);
          beta = (\<lambda>t. params ! (n + position teams t));
          rho = params ! (2 * n);
          gamma = params ! (2 * n + 1)
      in np_neg (py_sum (map (spec_match_log_like alpha beta rho gamma) dataset)))"

text \<open>
  Rows that can be subscripted with a column name, as the rows of
  \<^verbatim>\<open>dataset.iterrows()\<close> can. The code does not iterate over such rows; they serve to
  state what the element expression of the comprehension computes once its subscripts succeed.
\<close>

fun named_getitem :: "match \<Rightarrow> subscript \<Rightarrow> error + cell" where
  "named_getitem r (Key k) =
     (if k = ''Home Team'' then Inr (Str (home_team r))
      else if k = ''Home Score'' then Inr (Num (home_score r))
      else if k = ''Away Team'' then Inr (Str (away_team r))
      else if k = ''Away Score'' then Inr (Num (away_score r))
      else Inl KeyError)"
| "named_getitem r (Pos i) =
     tuple_getitem [Str (home_team r), Num (home_score r), Str (away_team r), Num (away_score r)]
       (Pos i)"

section \<open>Example inputs\<close>

text \<open>
  The two-team season of the spec's end-to-end scenario; a season in which team B never
  plays at home; a season with a negative and a fractional score; a season of 1-1 draws.
\<close>

definition two_team_season :: dataframe where
  "two_team_season =
     [\<lparr>home_team = ''A'', home_score = 20, away_team = ''B'', away_score = 15\<rparr>,
      \<lparr>home_team = ''B'', home_score = 18, away_team = ''A'', away_score = 16\<rparr>]"

definition one_sided_season :: dataframe where
  "one_sided_season =
     [\<lparr>home_team = ''A'', home_score = 20, away_team = ''B'', away_score = 15\<rparr>]"

definition bad_scores_season :: dataframe where
  "bad_scores_season =
     [\<lparr>home_team = ''A'', home_score = - 1, away_team = ''B'', away_score = 5 / 2\<rparr>,
      \<lparr>home_team = ''B'', home_score = 3, away_team = ''A'', away_score = 4\<rparr>]"

definition low_draws :: dataframe where
  "low_draws =
     [\<lparr>home_team = ''A'', home_score = 1, away_team = ''B'', away_score = 1\<rparr>,
      \<lparr>home_team = ''B'', home_score = 1, away_team = ''A'', away_score = 1\<rparr>]"

text \<open>A generator whose draws are all the midpoint of the range.\<close>

definition midpoint_draws :: "real \<Rightarrow> real \<Rightarrow> nat \<Rightarrow> real list" where
  "midpoint_draws low high n = replicate n ((low + high) / 2)"

text \<open>
  Two optimizers: one that returns a given result without evaluating the objective, and
  one that evaluates the objective once at the initial vector, as any real optimizer does
  first, passes on its exception, and otherwise stops there.
\<close>

definition fixed_minimizer :: "opt_result \<Rightarrow> minimizer" where
  "fixed_minimizer r f x0 opts cons = Inr r"

definition evaluating_minimizer :: minimizer where
  "evaluating_minimizer f x0 opts cons =
     and_then (f x0) (\<lambda>v. Inr \<lparr>res_x = x0, res_success = False, res_nit = 0, res_fun = v\<rparr>)"

text \<open>The same final vector, once from a converged run and once from a run stopped at the cap.\<close>

definition converged_result :: opt_result where
  "converged_result =
     \<lparr>res_x = [10, 10, 0, 0, 0, 0], res_success = True, res_nit = 7, res_fun = Fin 3\<rparr>"

definition capped_result :: opt_result where
  "capped_result =
     \<lparr>res_x = [10, 10, 0, 0, 0, 0], res_success = False, res_nit = 100, res_fun = Fin 5\<rparr>"

section \<open>Auxiliary lemmas\<close>

subsection \<open>Values that are not finite stay so\<close>

lemma np_add_not_finite_left: "\<not> is_finite a \<Longrightarrow> \<not> is_finite (np_add a b)"
  by (cases a; cases b) simp_all

lemma np_add_not_finite_right: "\<not> is_finite b \<Longrightarrow> \<not> is_finite (np_add a b)"
  by (cases a; cases b) simp_all

lemma np_neg_finite: "is_finite (np_neg a) = is_finite a"
  by (cases a) simp_all

lemma np_log_not_finite: "v \<le> 0 \<Longrightarrow> \<not> is_finite (np_log v)"
  by (simp add: np_log_def)

lemma foldl_np_add_stays: "\<not> is_finite acc \<Longrightarrow> \<not> is_finite (foldl np_add acc vs)"
  by (induction vs arbitrary: acc) (simp_all add: np_add_not_finite_left)

lemma foldl_np_add_not_finite:
  "v \<in> set vs \<Longrightarrow> \<not> is_finite v \<Longrightarrow> \<not> is_finite (foldl np_add acc vs)"
proof (induction vs arbitrary: acc)
  case Nil
  then show ?case by simp
next
  case (Cons w ws)
  show ?case
  proof (cases "v = w")
    case True
    with Cons.prems have "\<not> is_finite (np_add acc w)"
      by (simp add: np_add_not_finite_right)
    then show ?thesis by (simp add: foldl_np_add_stays)
  next
    case False
    with Cons.prems have "v \<in> set ws" by simp
    with Cons.IH Cons.prems show ?thesis by simp
  qed
qed

subsection \<open>Where np.exp leaves the range of the doubles\<close>

lemma underflow_bound_pos: "0 < underflow_bound"
  unfolding underflow_bound_def
  by (rule divide_pos_pos) (rule zero_less_one, rule zero_less_power, rule zero_less_numeral)

lemma overflow_bound_pos: "0 < overflow_bound"
proof -
  have "(2::real) ^ 970 < 2 ^ 1024"
    by (rule power_strict_increasing) simp_all
  then show ?thesis unfolding overflow_bound_def by (simp only: diff_gt_0_iff_gt)
qed

lemma ln_inverse_power_two: "ln (1 / (2::real) ^ n) = - (of_nat n * ln 2)"
  by (simp add: ln_div ln_realpow)

lemma ln_underflow_bound: "ln underflow_bound = - 1075 * ln 2"
  unfolding underflow_bound_def
  using ln_inverse_power_two [of 1075] by (simp only: of_nat_numeral minus_mult_left)

lemma underflow_iff: "exp v \<le> underflow_bound \<longleftrightarrow> v \<le> - 1075 * ln 2"
proof -
  have "exp v \<le> underflow_bound \<longleftrightarrow> exp v \<le> exp (ln underflow_bound)"
    using underflow_bound_pos by (simp only: exp_ln)
  also have "\<dots> \<longleftrightarrow> v \<le> ln underflow_bound" by (rule exp_le_cancel_iff)
  finally show ?thesis by (simp only: ln_underflow_bound)
qed







text \<open>Between the two bounds the rates of the doubles are the exact rates of \<open>dc_log_like\<close>.\<close>

lemma np_exp_exact:
  "- 1075 * ln 2 < v \<Longrightarrow> exp v < overflow_bound \<Longrightarrow> np_exp v = Fin (exp v)"
  by (simp only: np_exp_def underflow_iff not_le [symmetric] if_False)

lemma expected_rates_float64_exact:
  assumes "- 1075 * ln 2 < alpha_x + beta_y + gamma"
    and "exp (alpha_x + beta_y + gamma) < overflow_bound"
    and "- 1075 * ln 2 < alpha_y + beta_x"
    and "exp (alpha_y + beta_x) < overflow_bound"
  shows "expected_rates_float64 alpha_x beta_x alpha_y beta_y gamma
           = (Fin (fst (expected_rates alpha_x beta_x alpha_y beta_y gamma)),
              Fin (snd (expected_rates alpha_x beta_x alpha_y beta_y gamma)))"
  using assms by (simp add: expected_rates_float64_def expected_rates_def np_exp_exact)

subsection \<open>A dictionary built from distinct keys\<close>

lemma update_fresh: "k \<notin> fst ` set al \<Longrightarrow> AList.update k v al = al @ [(k, v)]"
  by (induction al) auto

lemma foldl_update_zip:
  "distinct ks \<Longrightarrow> set ks \<inter> fst ` set acc = {} \<Longrightarrow>
   foldl (\<lambda>d (k, v). AList.update k v d) acc (zip ks vs) = acc @ zip ks vs"
proof (induction ks arbitrary: acc vs)
  case Nil
  then show ?case by simp
next
  case step: (Cons k ks)
  show ?case
  proof (cases vs)
    case Nil
    then show ?thesis by simp
  next
    case (Cons v vs')
    from step.prems have fresh: "k \<notin> fst ` set acc" by auto
    have "set ks \<inter> fst ` set (acc @ [(k, v)]) = {}"
      using step.prems by auto
    with step.IH [of "acc @ [(k, v)]" vs'] step.prems
    have "foldl (\<lambda>d (k, v). AList.update k v d) (acc @ [(k, v)]) (zip ks vs')
            = (acc @ [(k, v)]) @ zip ks vs'" by simp
    with fresh Cons show ?thesis by (simp add: update_fresh)
  qed
qed

lemma dict_zip_distinct: "distinct ks \<Longrightarrow> dict_zip ks vs = zip ks vs"
  using foldl_update_zip [of ks "[]" vs] by (simp add: dict_zip_def)

lemma distinct_param_names: "distinct teams \<Longrightarrow> distinct (param_names teams)"
  by (auto simp: param_names_def distinct_map inj_on_def)

lemma map_of_zip_position:
  "t \<in> set ks \<Longrightarrow> length ks \<le> length vs \<Longrightarrow> map_of (zip ks vs) t = Some (vs ! position ks t)"
proof (induction ks arbitrary: vs)
  case Nil
  then show ?case by simp
next
  case (Cons k ks)
  then obtain v vs' where vs: "vs = v # vs'" by (cases vs) auto
  with Cons show ?case by auto
qed

lemma position_less: "t \<in> set ks \<Longrightarrow> position ks t < length ks"
  by (induction ks) auto

subsection \<open>Slices and comprehensions\<close>

lemma last_two: "2 \<le> length (params::'a list) \<Longrightarrow> \<exists>a b. drop (length params - 2) params = [a, b]"
proof -
  assume p: "2 \<le> length params"
  have "length (drop (length params - 2) params) = 2" using p by simp
  then show ?thesis
    by (metis (no_types, lifting) length_0_conv length_Suc_conv numeral_2_eq_2)
qed

lemma last_two_entries:
  assumes l: "length params = 2 * n + 2"
  shows "drop (length params - 2) params = [params ! (2 * n), params ! (2 * n + 1)]"
proof -
  have a: "drop (2 * n) params = params ! (2 * n) # drop (Suc (2 * n)) params"
    using Cons_nth_drop_Suc [of "2 * n" params] l by simp
  have b: "drop (Suc (2 * n)) params = params ! Suc (2 * n) # drop (Suc (Suc (2 * n))) params"
    using Cons_nth_drop_Suc [of "Suc (2 * n)" params] l by simp
  have c: "drop (Suc (Suc (2 * n))) params = []"
    using l by simp
  from l have "length params - 2 = 2 * n" by simp
  with a b c show ?thesis by simp
qed

lemma traverse_all_ok:
  "(\<And>r. r \<in> set rows \<Longrightarrow> f r = Inr (g r)) \<Longrightarrow> traverse f rows = Inr (map g rows)"
  by (induction rows) (simp_all add: and_then_def)

section \<open>The objective on the rows of itertuples\<close>

text \<open>
  The comprehension of \<open>estimate_parameters\<close> evaluates \<^verbatim>\<open>row['Home Score']\<close> first, on
  a named tuple. So on every data frame with at least one row, and every parameter vector
  long enough for \<^verbatim>\<open>rho, gamma = params[-2:]\<close>, the objective raises TypeError; on the
  empty frame it returns \<^verbatim>\<open>-sum([])\<close>, that is 0.
\<close>

lemma estimate_parameters_type_error:
  assumes "dataset \<noteq> []" and "2 \<le> length params"
  shows "estimate_parameters teams n_teams dataset params = Inl TypeError"
proof -
  from last_two [OF assms(2)] obtain a b where u: "drop (length params - 2) params = [a, b]"
    by blast
  from assms(1) obtain r rs where "itertuples dataset = r # rs"
    by (cases dataset) (auto simp: itertuples_def enumerate_eq_zip upt_rec)
  then show ?thesis
    by (simp add: estimate_parameters_def objective_over_def u log_like_term_def and_then_def)
qed

lemma estimate_parameters_empty:
  "2 \<le> length params \<Longrightarrow> estimate_parameters teams n_teams [] params = Inr (Fin 0)"
proof -
  assume "2 \<le> length params"
  from last_two [OF this] obtain a b where u: "drop (length params - 2) params = [a, b]"
    by blast
  show ?thesis
    by (simp add: estimate_parameters_def objective_over_def u itertuples_def and_then_def
        py_sum_def)
qed

text \<open>
  On rows that accept column names the same expression is the objective of the spec: for a
  roster without repetitions, a parameter vector of length \<open>2 * n + 2\<close> and a data frame
  whose teams all belong to the roster, it returns the negated sum of the per-match values
  \<open>log tau + log pmf + log pmf\<close>.
\<close>

lemma objective_over_named_rows:
  assumes d: "distinct teams"
    and l: "length params = 2 * length teams + 2"
    and r: "\<forall>m \<in> set dataset. home_team m \<in> set teams \<and> away_team m \<in> set teams"
  shows "objective_over named_getitem dataset teams (length teams) params
           = Inr (spec_objective teams params dataset)"
proof -
  let ?n = "length teams"
  let ?sc = "dict_zip teams (take ?n params)"
  let ?dc = "dict_zip teams (take ?n (drop ?n params))"
  let ?alpha = "\<lambda>t. params ! position teams t"
  let ?beta = "\<lambda>t. params ! (?n + position teams t)"
  have sc: "dict_getitem ?sc (Str t) = Inr (?alpha t)" if "t \<in> set teams" for t
    using that d l by (simp add: dict_zip_distinct map_of_zip_position position_less)
  have dc: "dict_getitem ?dc (Str t) = Inr (?beta t)" if "t \<in> set teams" for t
    using that d l by (simp add: dict_zip_distinct map_of_zip_position position_less)
  have step: "log_like_term named_getitem ?sc ?dc rho gamma m
                = Inr (spec_match_log_like ?alpha ?beta rho gamma m)"
    if "m \<in> set dataset" for m rho gamma
  proof -
    from that r have "home_team m \<in> set teams" "away_team m \<in> set teams" by auto
    then show ?thesis
      by (simp add: log_like_term_def and_then_def sc dc spec_match_log_like_def
          dc_log_like_def expected_rates_def Let_def del: dict_getitem.simps)
  qed
  have "traverse (log_like_term named_getitem ?sc ?dc rho gamma) dataset
          = Inr (map (spec_match_log_like ?alpha ?beta rho gamma) dataset)" for rho gamma
    by (rule traverse_all_ok) (simp add: step)
  then show ?thesis
    using last_two_entries [OF l]
    by (simp add: objective_over_def spec_objective_def and_then_def Let_def)
qed

section \<open>The solver around the optimizer\<close>

text \<open>
  An optimizer evaluates the objective at the initial vector before anything else, and an
  exception raised there leaves \<^verbatim>\<open>minimize\<close> and the solver. With such an optimizer the
  solver raises TypeError on every data frame that passes the roster check and has a row,
  with \<open>debug\<close> set or not.
\<close>

lemma solve_parameters_type_error:
  assumes "sort (remdups (map home_team dataset)) = sort (remdups (map away_team dataset))"
    and "dataset \<noteq> []"
    and "2 \<le> length (initial_values uniform (length (sort (remdups (map home_team dataset))))
                       init_vals)"
    and "\<And>f x0 opts cons e. f x0 = Inl e \<Longrightarrow> minimize f x0 opts cons = Inl e"
  shows "solve_parameters dataset debug init_vals opts constraints uniform minimize = Inl TypeError"
proof -
  let ?teams = "sort (remdups (map home_team dataset))"
  let ?init = "initial_values uniform (length ?teams) init_vals"
  have "estimate_parameters ?teams (length ?teams) dataset ?init = Inl TypeError"
    using assms(2,3) by (rule estimate_parameters_type_error)
  then have "minimize (estimate_parameters ?teams (length ?teams) dataset) ?init opts constraints
               = Inl TypeError"
    by (rule assms(4))
  with assms(1) show ?thesis
    by (simp add: solve_parameters_def and_then_def Let_def)
qed

text \<open>
  What the two branches after the call of \<^verbatim>\<open>minimize\<close> do with a result \<open>r\<close>, were the
  optimizer to return one: \<open>debug = True\<close> hands \<open>r\<close> back, \<open>debug = False\<close> pairs the
  names with the entries of its final vector.
\<close>

lemma debug_gates_output:
  assumes "teams = sort (remdups (map home_team dataset))"
    and "teams = sort (remdups (map away_team dataset))"
    and "minimize (estimate_parameters teams (length teams) dataset)
           (initial_values uniform (length teams) init_vals) opts constraints = Inr r"
  shows "solve_parameters dataset True init_vals opts constraints uniform minimize = Inr (Raw r)"
    and "solve_parameters dataset False init_vals opts constraints uniform minimize
           = Inr (Params (zip (map (\<lambda>team. ''attack_'' @ team) teams
                                 @ map (\<lambda>team. ''defence_'' @ team) teams
                                 @ [''rho'', ''home_adv''])
                              (res_x r)))"
proof -
  show "solve_parameters dataset True init_vals opts constraints uniform minimize = Inr (Raw r)"
    using assms by (simp add: solve_parameters_def and_then_def Let_def)
  have "distinct teams" using assms(1) by simp
  then have "dict_zip (param_names teams) (res_x r) = zip (param_names teams) (res_x r)"
    by (simp add: dict_zip_distinct distinct_param_names)
  with assms show "solve_parameters dataset False init_vals opts constraints uniform minimize
           = Inr (Params (zip (map (\<lambda>team. ''attack_'' @ team) teams
                                 @ map (\<lambda>team. ''defence_'' @ team) teams
                                 @ [''rho'', ''home_adv''])
                              (res_x r)))"
    by (simp add: solve_parameters_def and_then_def Let_def param_names_def)
qed

section \<open>Properties\<close>

text \<open>
  C1. For every pair of non-negative integer scores \<open>x\<close>, \<open>y\<close> and all \<open>lambda\<close>, \<open>mu\<close>,
  \<open>rho\<close> (the positive \<open>lambda\<close>, \<open>mu\<close> of the spec among them), \<open>rho_correction\<close> returns
  \<open>1 - lambda * mu * rho\<close> at (0,0), \<open>1 + lambda * rho\<close> at (0,1), \<open>1 + mu * rho\<close> at (1,0),
  \<open>1 - rho\<close> at (1,1), and exactly 1 at every other pair.
\<close>

theorem rho_correction_piecewise:
  "rho_correction (of_nat x) (of_nat y) lambda mu rho =
     (if x = 0 \<and> y = 0 then 1 - lambda * mu * rho
      else if x = 0 \<and> y = 1 then 1 + lambda * rho
      else if x = 1 \<and> y = 0 then 1 + mu * rho
      else if x = 1 \<and> y = 1 then 1 - rho
      else 1)"
  by (simp add: rho_correction_def)

text \<open>
  C2. The spec has the objective equal the negated sum over all matches of
  \<open>log tau + log pmf + log pmf\<close>. On the two-team season and the parameter vector
  \<open>[1, 1, 0, 0, 0, 1]\<close> the objective of the code raises TypeError instead
  (\<open>estimate_parameters_type_error\<close> has the general statement), while the sum of the spec
  is \<open>spec_objective\<close> at that input, which \<open>objective_over_named_rows\<close> shows the same
  expression to return on rows that accept column names.
\<close>

theorem estimate_parameters_raises:
  "estimate_parameters [''A'', ''B''] 2 two_team_season [1, 1, 0, 0, 0, 1] = Inl TypeError"
  by (simp add: estimate_parameters_def objective_over_def two_team_season_def itertuples_def
      log_like_term_def and_then_def)

text \<open>
  C3. For every data frame whose sorted distinct home-team names differ from its sorted
  distinct away-team names, the solver raises its ValueError, whatever the optimizer, the
  options and the other arguments are: the optimizer is not consulted and nothing else is
  returned.
\<close>

theorem unequal_rosters_rejected:
  "sort (remdups (map home_team dataset)) \<noteq> sort (remdups (map away_team dataset)) \<Longrightarrow>
   solve_parameters dataset debug init_vals opts constraints uniform minimize
     = Inl (ValueError Somethings_not_right)"
  by (simp add: solve_parameters_def)

theorem unequal_rosters_rejected_witness:
  "sort (remdups (map home_team one_sided_season))
     \<noteq> sort (remdups (map away_team one_sided_season))
   \<and> solve_parameters one_sided_season False None default_options default_constraints
        midpoint_draws evaluating_minimizer = Inl (ValueError Somethings_not_right)"
proof -
  have h: "sort (remdups (map home_team one_sided_season))
             \<noteq> sort (remdups (map away_team one_sided_season))"
    by (simp add: one_sided_season_def)
  show ?thesis using h unequal_rosters_rejected [OF h] by simp
qed

text \<open>
  C4 (as amended). The code substitutes no penalty. Where a match has a correction factor
  \<open>tau \<le> 0\<close> or a Poisson probability equal to 0, its per-match value \<open>dc_log_like\<close> is
  not finite (\<open>NaN\<close> or \<open>-inf\<close>), and the value \<^verbatim>\<open>-sum(log_like)\<close> that the objective
  returns for any list of per-match values holding it is not finite either.
\<close>

theorem invalid_points_not_penalised:
  assumes "rho_correction x y (fst (expected_rates alpha_x beta_x alpha_y beta_y gamma))
             (snd (expected_rates alpha_x beta_x alpha_y beta_y gamma)) rho \<le> 0
           \<or> poisson_pmf x (fst (expected_rates alpha_x beta_x alpha_y beta_y gamma)) = 0
           \<or> poisson_pmf y (snd (expected_rates alpha_x beta_x alpha_y beta_y gamma)) = 0"
    and "dc_log_like x y alpha_x beta_x alpha_y beta_y rho gamma \<in> set log_like"
  shows "\<not> is_finite (dc_log_like x y alpha_x beta_x alpha_y beta_y rho gamma)
     \<and> \<not> is_finite (np_neg (py_sum log_like))"
proof -
  obtain l m where lm: "expected_rates alpha_x beta_x alpha_y beta_y gamma = (l, m)"
    by (cases "expected_rates alpha_x beta_x alpha_y beta_y gamma")
  from assms(1) lm consider "rho_correction x y l m rho \<le> 0" | "poisson_pmf x l = 0"
    | "poisson_pmf y m = 0" by auto
  then have nf: "\<not> is_finite (dc_log_like x y alpha_x beta_x alpha_y beta_y rho gamma)"
  proof cases
    case 1
    then show ?thesis
      by (simp add: dc_log_like_def lm np_add_not_finite_left np_log_not_finite)
  next
    case 2
    then show ?thesis
      by (simp add: dc_log_like_def lm np_add_not_finite_left np_add_not_finite_right
          np_log_not_finite)
  next
    case 3
    then show ?thesis
      by (simp add: dc_log_like_def lm np_add_not_finite_right np_log_not_finite)
  qed
  with assms(2) have "\<not> is_finite (py_sum log_like)"
    unfolding py_sum_def by (rule foldl_np_add_not_finite)
  with nf show ?thesis by (simp add: np_neg_finite)
qed

theorem invalid_points_not_penalised_witness:
  "rho_correction 1 1 (fst (expected_rates 0 0 0 0 0)) (snd (expected_rates 0 0 0 0 0)) 2 \<le> 0
   \<and> \<not> is_finite (dc_log_like 1 1 0 0 0 0 2 0)
   \<and> \<not> is_finite (np_neg (py_sum [dc_log_like 20 15 0 0 0 0 2 0, dc_log_like 1 1 0 0 0 0 2 0]))"
proof -
  have a: "rho_correction 1 1 (fst (expected_rates 0 0 0 0 0)) (snd (expected_rates 0 0 0 0 0)) 2 \<le> 0
           \<or> poisson_pmf 1 (fst (expected_rates 0 0 0 0 0)) = 0
           \<or> poisson_pmf 1 (snd (expected_rates 0 0 0 0 0)) = 0"
    by (simp add: rho_correction_def expected_rates_def)
  have b: "dc_log_like 1 1 0 0 0 0 2 0
             \<in> set [dc_log_like 20 15 0 0 0 0 2 0, dc_log_like 1 1 0 0 0 0 2 0]"
    by simp
  show ?thesis
    using invalid_points_not_penalised [OF a b]
    by (simp add: rho_correction_def expected_rates_def)
qed

text \<open>
  At \<open>rho = 2\<close> a 1-1 draw has \<open>tau = - 1\<close>: its per-match value is \<open>NaN\<close> and so is the
  negated sum over the season of draws, where the spec asks for a large finite penalty; the
  objective itself raises there.
\<close>

theorem no_penalty_counterexample:
  "estimate_parameters [''A'', ''B''] 2 low_draws [0, 0, 0, 0, 2, 0] = Inl TypeError
   \<and> dc_log_like 1 1 0 0 0 0 2 0 = NaN
   \<and> np_neg (py_sum [dc_log_like 1 1 0 0 0 0 2 0, dc_log_like 1 1 0 0 0 0 2 0]) = NaN"
  by (simp add: estimate_parameters_def objective_over_def low_draws_def itertuples_def
      log_like_term_def and_then_def dc_log_like_def expected_rates_def rho_correction_def
      np_log_def py_sum_def)

text \<open>
  C5. The spec has the returned vector satisfy "the sum of the \<open>n\<close> attack parameters is \<open>n\<close>",
  with \<open>n\<close> the size of the roster. The constraint the solver hands to the optimizer is
  \<^verbatim>\<open>sum(x[:20]) - 20 = 0\<close> whatever the roster. For the two-team season it sums all six
  parameters: the vector \<open>[10, 10, 0, 0, 0, 0]\<close> satisfies it with an attack sum of 20, not 2,
  and the solver returns it as it is; the vector \<open>[1, 1, 0, 0, 0, 1]\<close>, whose attack sum is 2,
  violates it.
\<close>

theorem hardcoded_twenty:
  "default_constraints = [Eq default_constraint_fun]
   \<and> default_constraint_fun (res_x converged_result) = 0
   \<and> sum_list (take 2 (res_x converged_result)) = 20
   \<and> default_constraint_fun [1, 1, 0, 0, 0, 1] = - 17
   \<and> solve_parameters two_team_season False None default_options default_constraints
        midpoint_draws (fixed_minimizer converged_result)
      = Inr (Params [(''attack_A'', 10), (''attack_B'', 10), (''defence_A'', 0),
                     (''defence_B'', 0), (''rho'', 0), (''home_adv'', 0)])"
  by (simp add: default_constraints_def default_constraint_fun_def converged_result_def
      solve_parameters_def two_team_season_def fixed_minimizer_def and_then_def
      param_names_def dict_zip_def)

text \<open>
  C6 (as amended). For every data frame that passes the roster check, whenever the optimizer
  returns a result, converged or stopped at the iteration cap, the solver called with
  \<open>debug = False\<close> does not fail and returns exactly the pairs of \<open>attack_<team>\<close> and
  \<open>defence_<team>\<close> for the sorted teams, then \<open>rho\<close> and \<open>home_adv\<close>, with the entries of
  the optimizer's final vector. The result holds no converged flag, iteration count or
  objective value.
\<close>

theorem mapping_of_final_vector:
  assumes "teams = sort (remdups (map home_team dataset))"
    and "teams = sort (remdups (map away_team dataset))"
    and "minimize (estimate_parameters teams (length teams) dataset)
           (initial_values uniform (length teams) init_vals) opts constraints = Inr r"
  shows "solve_parameters dataset False init_vals opts constraints uniform minimize
           = Inr (Params (zip (param_names teams) (res_x r)))"
proof -
  have "distinct teams" using assms(1) by simp
  then have "dict_zip (param_names teams) (res_x r) = zip (param_names teams) (res_x r)"
    by (simp add: dict_zip_distinct distinct_param_names)
  with assms show ?thesis
    by (simp add: solve_parameters_def and_then_def Let_def)
qed

theorem mapping_of_final_vector_witness:
  "res_success capped_result = False
   \<and> solve_parameters two_team_season False None default_options default_constraints
     midpoint_draws (fixed_minimizer capped_result)
       = Inr (Params (zip (param_names [''A'', ''B'']) (res_x capped_result)))"
proof -
  have a: "[''A'', ''B''] = sort (remdups (map home_team two_team_season))"
    by (simp add: two_team_season_def)
  have b: "[''A'', ''B''] = sort (remdups (map away_team two_team_season))"
    by (simp add: two_team_season_def)
  have c: "fixed_minimizer capped_result
             (estimate_parameters [''A'', ''B''] (length [''A'', ''B'']) two_team_season)
             (initial_values midpoint_draws (length [''A'', ''B'']) None)
             default_options default_constraints = Inr capped_result"
    by (simp add: fixed_minimizer_def)
  show ?thesis
    using mapping_of_final_vector
      [where minimize = "fixed_minimizer capped_result" and uniform = midpoint_draws, OF a b c]
    by (simp add: capped_result_def)
qed

text \<open>
  A converged run and a run stopped at the cap that end at the same vector give the same
  result, although their success flags, iteration counts and objective values differ.
\<close>

theorem metadata_dropped_counterexample:
  "solve_parameters two_team_season False None default_options default_constraints
     midpoint_draws (fixed_minimizer converged_result)
     = Inr (Params [(''attack_A'', 10), (''attack_B'', 10), (''defence_A'', 0),
                    (''defence_B'', 0), (''rho'', 0), (''home_adv'', 0)])
   \<and> solve_parameters two_team_season False None default_options default_constraints
     midpoint_draws (fixed_minimizer capped_result)
     = Inr (Params [(''attack_A'', 10), (''attack_B'', 10), (''defence_A'', 0),
                    (''defence_B'', 0), (''rho'', 0), (''home_adv'', 0)])
   \<and> res_success converged_result \<noteq> res_success capped_result
   \<and> res_nit converged_result \<noteq> res_nit capped_result
   \<and> res_fun converged_result \<noteq> res_fun capped_result"
  by (simp add: solve_parameters_def two_team_season_def fixed_minimizer_def and_then_def
      param_names_def dict_zip_def converged_result_def capped_result_def)




text \<open>
  C8 (as amended). The roster check is the solver's only validation; scores are not looked
  at. For every data frame that passes it, negative and fractional scores included, the
  solver fails exactly when the optimizer's call fails, and with the same exception.
\<close>

theorem failures_come_from_optimizer:
  assumes "teams = sort (remdups (map home_team dataset))"
    and "teams = sort (remdups (map away_team dataset))"
  shows "solve_parameters dataset debug init_vals opts constraints uniform minimize = Inl e
     \<longleftrightarrow> minimize (estimate_parameters teams (length teams) dataset)
           (initial_values uniform (length teams) init_vals) opts constraints = Inl e"
  using assms by (auto simp: solve_parameters_def and_then_def Let_def split: sum.splits)

theorem failures_come_from_optimizer_witness:
  "[''A'', ''B''] = sort (remdups (map home_team bad_scores_season))
   \<and> [''A'', ''B''] = sort (remdups (map away_team bad_scores_season))
   \<and> solve_parameters bad_scores_season False None default_options default_constraints
        midpoint_draws (fixed_minimizer capped_result) \<noteq> Inl (ValueError Somethings_not_right)"
proof -
  have a: "[''A'', ''B''] = sort (remdups (map home_team bad_scores_season))"
    by (simp add: bad_scores_season_def)
  have b: "[''A'', ''B''] = sort (remdups (map away_team bad_scores_season))"
    by (simp add: bad_scores_season_def)
  show ?thesis
    using a b failures_come_from_optimizer
      [where minimize = "fixed_minimizer capped_result" and uniform = midpoint_draws
         and e = "ValueError Somethings_not_right" and debug = False and init_vals = None
         and opts = default_options and constraints = default_constraints, OF a b]
    by (simp add: fixed_minimizer_def)
qed

text \<open>
  A season with the scores \<open>- 1\<close> and \<open>5 / 2\<close> reaches the optimizer: the solver returns
  what the optimizer returns, or raises what the objective raises inside it.
\<close>

theorem bad_scores_pass_validation_counterexample:
  "solve_parameters bad_scores_season True None default_options default_constraints
     midpoint_draws (fixed_minimizer capped_result) = Inr (Raw capped_result)
   \<and> solve_parameters bad_scores_season True None default_options default_constraints
     midpoint_draws evaluating_minimizer = Inl TypeError"
  by (simp add: solve_parameters_def bad_scores_season_def fixed_minimizer_def and_then_def
      evaluating_minimizer_def initial_values_def midpoint_draws_def
      estimate_parameters_def objective_over_def itertuples_def log_like_term_def)

text \<open>
  C9. For a decay rate \<open>xi \<ge> 0\<close> and elapsed days \<open>d1 \<ge> 0\<close> the weight is
  \<open>exp (- xi * d1)\<close>; with \<open>xi = 0\<close> it is 1 whatever the elapsed days; at 0 elapsed days
  it is 1; and for \<open>xi > 0\<close> it is strictly decreasing in the elapsed days.
\<close>

theorem time_weight_decay:
  assumes "0 \<le> xi" and "0 \<le> d1" and "d1 < d2"
  shows "time_weight xi d1 = exp (- xi * d1)
     \<and> time_weight 0 d1 = 1
     \<and> time_weight xi 0 = 1
     \<and> (0 < xi \<longrightarrow> time_weight xi d2 < time_weight xi d1)"
  using assms by (simp add: time_weight_def)

theorem time_weight_decay_witness:
  "time_weight 1 0 = exp (- 1 * 0) \<and> time_weight 0 0 = 1 \<and> time_weight 1 0 = 1
   \<and> time_weight 1 1 < time_weight 1 0"
proof -
  have a: "(0::real) \<le> 1" and b: "(0::real) \<le> 0" and c: "(0::real) < 1" by simp_all
  show ?thesis using time_weight_decay [OF a b c] by simp
qed

text \<open>
  C10. The spec has the solver called with \<open>debug = True\<close> return the optimizer's raw result
  for every valid data frame, and the dictionary of names when \<open>debug = False\<close>. The two
  branches after the call of \<^verbatim>\<open>minimize\<close> do that (\<open>debug_gates_output\<close>), but on the
  two-team season the call never returns: the optimizer evaluates the objective at the
  initial vector, the objective raises TypeError, and the solver raises it in either mode
  (\<open>solve_parameters_type_error\<close> has the general statement).
\<close>

theorem debug_run_raises:
  "solve_parameters two_team_season True None default_options default_constraints
     midpoint_draws evaluating_minimizer = Inl TypeError
   \<and> solve_parameters two_team_season False None default_options default_constraints
     midpoint_draws evaluating_minimizer = Inl TypeError"
  by (simp add: solve_parameters_def two_team_season_def and_then_def
      evaluating_minimizer_def initial_values_def midpoint_draws_def
      estimate_parameters_def objective_over_def itertuples_def log_like_term_def)

end
